theory Spec2Isabelle
  imports Main "HOL-Library.AList" "HOL-Library.Char_ord" "HOL-Library.List_Lexorder"
begin

section \<open>Python values\<close>

text \<open>
  The values a preference can take in the service: \<open>None\<close>, booleans, integers and
  strings. A Python \<open>str\<close> is modelled by its UTF-8 bytes, so the ASCII strings of the
  schema are the same lists of characters in both worlds. Integers are unbounded; \<open>str\<close>
  of an integer is its full decimal representation.
\<close>

datatype pyval = PNone | PBool bool | PInt int | PStr string


text \<open>Python's \<open>==\<close> on these values: a boolean equals the integer 0 or 1.\<close>

fun py_eq :: "pyval \<Rightarrow> pyval \<Rightarrow> bool" where
  "py_eq PNone PNone = True"
| "py_eq (PBool a) (PBool b) = (a = b)"
| "py_eq (PBool a) (PInt n) = ((if a then 1 else 0) = n)"
| "py_eq (PInt n) (PBool a) = ((if a then 1 else 0) = n)"
| "py_eq (PInt m) (PInt n) = (m = n)"
| "py_eq (PStr s) (PStr t) = (s = t)"
| "py_eq _ _ = False"

text \<open>\<open>v in xs\<close> for a list or tuple \<open>xs\<close>.\<close>

definition py_in :: "pyval \<Rightarrow> pyval list \<Rightarrow> bool" where
  "py_in v xs = list_ex (py_eq v) xs"

subsection \<open>Decimal representation of integers\<close>

definition digit_char :: "nat \<Rightarrow> char" where
  "digit_char d = char_of (48 + d)"

fun digits_of :: "nat \<Rightarrow> string" where
  "digits_of n = (if n < 10 then [digit_char n] else digits_of (n div 10) @ [digit_char (n mod 10)])"

declare digits_of.simps [simp del]

definition str_int :: "int \<Rightarrow> string" where
  "str_int i = (if i < 0 then CHR ''-'' # digits_of (nat (- i)) else digits_of (nat i))"

text \<open>\<open>str(v)\<close>.\<close>

fun py_str :: "pyval \<Rightarrow> string" where
  "py_str PNone = ''None''"
| "py_str (PBool b) = (if b then ''True'' else ''False'')"
| "py_str (PInt n) = str_int n"
| "py_str (PStr s) = s"

section \<open>The schema\<close>

definition DEFAULT_PREFERENCES :: "(string \<times> pyval) list" where
  "DEFAULT_PREFERENCES =
    [(''timezone'', PStr ''UTC''),
     (''date_format'', PStr ''YYYY-MM-DD''),
     (''time_format'', PStr ''24h''),
     (''messages_per_page'', PInt 50),
     (''auto_refresh_interval'', PInt 30),
     (''show_message_previews'', PBool True),
     (''show_reaction_notifications'', PBool True),
     (''enable_auto_reactions'', PBool True),
     (''default_emoji_mode'', PStr ''random''),
     (''language'', PStr ''en''),
     (''show_unmonitored_groups'', PBool False),
     (''compact_message_view'', PBool False),
     (''enable_ai_features'', PBool True),
     (''default_ai_provider'', PStr ''ollama''),
     (''activity_chart_style'', PStr ''bars''),
     (''dashboard_refresh_rate'', PInt 60),
     (''filter_persist_navigation'', PBool True),
     (''show_deleted_messages'', PBool False),
     (''notification_sound'', PBool True)]"

text \<open>
  The Japanese date format \<open>YYYY<nen>MM<gatsu>DD<nichi>\<close>, written with the UTF-8 bytes of the
  three ideographs U+5E74, U+6708 and U+65E5.
\<close>

definition nen :: string where "nen = [CHR 0xE5, CHR 0xB9, CHR 0xB4]"
definition gatsu :: string where "gatsu = [CHR 0xE6, CHR 0x9C, CHR 0x88]"
definition nichi :: string where "nichi = [CHR 0xE6, CHR 0x97, CHR 0xA5]"

definition date_format_ja :: string where
  "date_format_ja = ''YYYY'' @ nen @ ''MM'' @ gatsu @ ''DD'' @ nichi"

subsection \<open>The timezone catalog\<close>

definition common_zones :: "string list" where
  "common_zones =
    [''UTC'', ''US/Eastern'', ''US/Central'', ''US/Mountain'', ''US/Pacific'',
     ''Europe/London'', ''Europe/Paris'', ''Europe/Berlin'', ''Asia/Tokyo'',
     ''Asia/Shanghai'', ''Asia/Hong_Kong'', ''Asia/Singapore'', ''Australia/Sydney'',
     ''Australia/Melbourne'']"

text \<open>
  \<open>_get_timezone_options\<close>; \<open>all_timezones\<close> is \<open>pytz.all_timezones\<close>, the identifiers
  of the timezone database, which is not part of the repository.
\<close>

definition get_timezone_options :: "string list \<Rightarrow> string list" where
  "get_timezone_options all_timezones =
     (let timezones = [] @ common_zones;
          all_zones = filter (\<lambda>tz. tz \<notin> set common_zones) all_timezones
      in timezones @ sort all_zones)"

section \<open>The service state\<close>

text \<open>
  The table \<open>bot_config\<close> is a list of rows (key, value) in the order a scan returns
  them; the column \<open>updated_at\<close> is never read by the service and is left out. The clock
  is read in microseconds.
\<close>

type_synonym row = "string \<times> string"
type_synonym snapshot = "(string \<times> pyval) list"

record state =
  db :: "row list"
  preferences_cache :: "snapshot option"
  cache_timestamp :: "int option"
  cache_timeout :: int
  timezone_options :: "string list"

text \<open>\<open>__init__\<close>.\<close>

definition init :: "string list \<Rightarrow> row list \<Rightarrow> state" where
  "init all_timezones rows =
     \<lparr>db = rows, preferences_cache = None, cache_timestamp = None, cache_timeout = 60,
      timezone_options = get_timezone_options all_timezones\<rparr>"

text \<open>\<open>PREFERENCE_OPTIONS\<close>, with the timezone entry the constructor has filled in.\<close>

definition PREFERENCE_OPTIONS :: "state \<Rightarrow> (string \<times> pyval list) list" where
  "PREFERENCE_OPTIONS s =
    [(''timezone'', map PStr (timezone_options s)),
     (''date_format'', map PStr [''YYYY-MM-DD'', ''DD/MM/YYYY'', ''MM/DD/YYYY'', ''DD.MM.YYYY'',
        date_format_ja]),
     (''time_format'', map PStr [''24h'', ''12h'']),
     (''messages_per_page'', map PInt [25, 50, 100, 200]),
     (''auto_refresh_interval'', map PInt [0, 15, 30, 60, 120, 300]),
     (''default_emoji_mode'', map PStr [''random'', ''fixed'', ''disabled'']),
     (''language'', map PStr [''en'', ''ja'', ''es'', ''fr'', ''de'', ''zh'']),
     (''default_ai_provider'', map PStr [''ollama'', ''openai'', ''anthropic'', ''gemini'', ''groq'']),
     (''activity_chart_style'', map PStr [''bars'', ''heatmap'', ''line'']),
     (''dashboard_refresh_rate'', map PInt [0, 30, 60, 120, 300])]"

section \<open>Errors\<close>

text \<open>
  An operation returns its outcome together with the state it leaves behind, so that the
  effects that precede a raised exception stay visible.
\<close>

datatype error =
    ValueError string
  | UnknownTimeZoneError pyval
  | AttributeError
  | OutsideModel string

section \<open>The configuration store\<close>

definition lower_char :: "char \<Rightarrow> char" where
  "lower_char c = (if CHR ''A'' \<le> c \<and> c \<le> CHR ''Z'' then char_of (of_char c + (32::nat)) else c)"

text \<open>
  \<open>key LIKE 'pref_%'\<close>: in the pattern \<open>_\<close> stands for any one character and \<open>%\<close> for
  any sequence, and SQLite's \<open>LIKE\<close> ignores the case of ASCII letters.
\<close>

definition like_pref :: "string \<Rightarrow> bool" where
  "like_pref k = (map lower_char (take 4 k) = ''pref'' \<and> 5 \<le> length k)"

definition select_prefs :: "row list \<Rightarrow> row list" where
  "select_prefs rows = filter (\<lambda>r. like_pref (fst r)) rows"

definition delete_prefs :: "row list \<Rightarrow> row list" where
  "delete_prefs rows = filter (\<lambda>r. \<not> like_pref (fst r)) rows"

text \<open>\<open>INSERT OR REPLACE\<close>: a row with the same key is removed, the new row is added.\<close>

definition insert_or_replace :: "string \<Rightarrow> string \<Rightarrow> row list \<Rightarrow> row list" where
  "insert_or_replace k v rows = filter (\<lambda>r. fst r \<noteq> k) rows @ [(k, v)]"

section \<open>Writing preferences\<close>

definition value_str :: "pyval \<Rightarrow> string" where
  "value_str v = (case v of PBool b \<Rightarrow> (if b then ''true'' else ''false'') | _ \<Rightarrow> py_str v)"

definition set_preference :: "state \<Rightarrow> string \<Rightarrow> pyval \<Rightarrow> (error + bool) \<times> state" where
  "set_preference s key v =
     (if map_of DEFAULT_PREFERENCES key = None
      then (Inl (ValueError (''Unknown preference key: '' @ key)), s)
      else if (case map_of (PREFERENCE_OPTIONS s) key of
                 None \<Rightarrow> False
               | Some opts \<Rightarrow> opts \<noteq> [] \<and> \<not> py_in v opts)
      then (Inl (ValueError (''Invalid value for '' @ key @ '': '' @ py_str v)), s)
      else (Inr True,
            s\<lparr>db := insert_or_replace (''pref_'' @ key) (value_str v) (db s),
              preferences_cache := None\<rparr>))"

fun set_multiple_preferences :: "state \<Rightarrow> (string \<times> pyval) list \<Rightarrow> (error + bool) \<times> state" where
  "set_multiple_preferences s [] = (Inr True, s)"
| "set_multiple_preferences s ((key, v) # rest) =
     (case set_preference s key v of
        (Inl e, s') \<Rightarrow> (Inl e, s')
      | (Inr _, s') \<Rightarrow> set_multiple_preferences s' rest)"

definition reset_to_defaults :: "state \<Rightarrow> (error + bool) \<times> state" where
  "reset_to_defaults s = (Inr True, s\<lparr>db := delete_prefs (db s), preferences_cache := None\<rparr>)"

section \<open>Decoding stored strings\<close>

subsection \<open>\<open>json.loads\<close>\<close>

text \<open>
  Python's JSON decoder on a stored string. The model decodes the scalars \<open>null\<close>,
  \<open>true\<close>, \<open>false\<close> and the integers, and recognises the texts that are not JSON at all
  (\<open>JError\<close>, a \<open>JSONDecodeError\<close>). A text that begins a JSON string, array or object,
  or that is a floating-point number, gets \<open>JOther\<close>: its value is not one of \<open>pyval\<close>,
  and the model says nothing about it.
\<close>

datatype json_result = JValue pyval | JError | JOther

definition json_ws :: "char \<Rightarrow> bool" where
  "json_ws c = (c \<in> set [CHR '' '', CHR 0x09, CHR 0x0A, CHR 0x0D])"

definition is_digit :: "char \<Rightarrow> bool" where
  "is_digit c = (c \<in> set ''0123456789'')"

definition digit_val :: "char \<Rightarrow> nat" where
  "digit_val c = of_char c - 48"

definition nat_of_digits :: "string \<Rightarrow> nat" where
  "nat_of_digits ds = foldl (\<lambda>n c. 10 * n + digit_val c) 0 ds"

text \<open>Only whitespace is left: the decoder has consumed the whole text.\<close>

definition json_end :: "string \<Rightarrow> bool" where
  "json_end rest = (dropWhile json_ws rest = [])"

text \<open>The integer part \<open>-?(0|[1-9][0-9]*)\<close> of a number, and what follows it.\<close>

definition json_int :: "string \<Rightarrow> (int \<times> string) option" where
  "json_int t =
     (let neg = (t \<noteq> [] \<and> hd t = CHR ''-'');
          u = (if neg then tl t else t)
      in case u of
           [] \<Rightarrow> None
         | d # ds \<Rightarrow>
             if d = CHR ''0'' then Some (0, ds)
             else if is_digit d
             then Some ((if neg then - 1 else 1) * int (nat_of_digits (takeWhile is_digit u)),
                        dropWhile is_digit u)
             else None)"

text \<open>The fraction \<open>\.[0-9]+\<close> and the exponent \<open>[eE][-+]?[0-9]+\<close>, both optional.\<close>

definition json_frac :: "string \<Rightarrow> bool \<times> string" where
  "json_frac t =
     (case t of
        c # d # ds \<Rightarrow> if c = CHR ''.'' \<and> is_digit d then (True, dropWhile is_digit ds) else (False, t)
      | _ \<Rightarrow> (False, t))"

definition json_exp :: "string \<Rightarrow> bool \<times> string" where
  "json_exp t =
     (case t of
        [] \<Rightarrow> (False, t)
      | c # cs \<Rightarrow>
          if c = CHR ''e'' \<or> c = CHR ''E''
          then (let u = (if cs \<noteq> [] \<and> (hd cs = CHR ''+'' \<or> hd cs = CHR ''-'') then tl cs else cs)
                in if u \<noteq> [] \<and> is_digit (hd u) then (True, dropWhile is_digit u) else (False, t))
          else (False, t))"

definition json_literal :: "string \<Rightarrow> string \<Rightarrow> json_result \<Rightarrow> json_result" where
  "json_literal lit t r = (if json_end (drop (length lit) t) then r else JError)"

definition json_loads :: "string \<Rightarrow> json_result" where
  "json_loads s =
     (let t = dropWhile json_ws s
      in case t of
           [] \<Rightarrow> JError
         | c # cs \<Rightarrow>
             if c = CHR 0x22 \<or> c = CHR ''['' \<or> c = CHR ''{'' then JOther
             else if take 4 t = ''null'' then json_literal ''null'' t (JValue PNone)
             else if take 4 t = ''true'' then json_literal ''true'' t (JValue (PBool True))
             else if take 5 t = ''false'' then json_literal ''false'' t (JValue (PBool False))
             else (case json_int t of
                     Some (n, r0) \<Rightarrow>
                       (let (f, r1) = json_frac r0; (e, r2) = json_exp r1
                        in if \<not> json_end r2 then JError
                           else if f \<or> e then JOther
                           else JValue (PInt n))
                   | None \<Rightarrow>
                       if take 3 t = ''NaN'' then json_literal ''NaN'' t JOther
                       else if take 8 t = ''Infinity'' then json_literal ''Infinity'' t JOther
                       else if take 9 t = ''-Infinity'' then json_literal ''-Infinity'' t JOther
                       else JError))"

subsection \<open>\<open>int(s)\<close> of a string\<close>

text \<open>
  Python's \<open>int\<close> on a string: whitespace around, an optional sign, then digits, where
  single underscores may separate digits. A string with a byte outside ASCII may hold
  Unicode digits or spaces and gets \<open>IOther\<close>.
\<close>

datatype int_result = IValue int | IError | IOther

definition py_space :: "char \<Rightarrow> bool" where
  "py_space c = (c \<in> set [CHR 0x09, CHR 0x0A, CHR 0x0B, CHR 0x0C, CHR 0x0D,
                            CHR 0x1C, CHR 0x1D, CHR 0x1E, CHR 0x1F, CHR '' ''])"

text \<open>Digits with single underscores between them: the digits, if the shape is right.\<close>

fun grouped_digits :: "string \<Rightarrow> string option" where
  "grouped_digits [] = None"
| "grouped_digits [c] = (if is_digit c then Some [c] else None)"
| "grouped_digits (c # d # cs) =
     (if \<not> is_digit c then None
      else if d = CHR ''_''
      then (case grouped_digits cs of None \<Rightarrow> None | Some ds \<Rightarrow> Some (c # ds))
      else (case grouped_digits (d # cs) of None \<Rightarrow> None | Some ds \<Rightarrow> Some (c # ds)))"

definition py_int_str :: "string \<Rightarrow> int_result" where
  "py_int_str s =
     (if \<exists>c \<in> set s. (127::nat) < of_char c then IOther
      else (let t = rev (dropWhile py_space (rev (dropWhile py_space s)));
                neg = (t \<noteq> [] \<and> hd t = CHR ''-'');
                u = (if t \<noteq> [] \<and> (hd t = CHR ''-'' \<or> hd t = CHR ''+'') then tl t else t)
            in case grouped_digits u of
                 None \<Rightarrow> IError
               | Some ds \<Rightarrow> IValue ((if neg then - 1 else 1) * int (nat_of_digits ds))))"

subsection \<open>One row\<close>

text \<open>\<open>key.replace(old, '')\<close> for a non-empty \<open>old\<close>: every occurrence, from the left.\<close>

function remove_all :: "string \<Rightarrow> string \<Rightarrow> string" where
  "remove_all old [] = []"
| "remove_all old (c # cs) =
     (if old \<noteq> [] \<and> take (length old) (c # cs) = old
      then remove_all old (drop (length old) (c # cs))
      else c # remove_all old cs)"
  by pat_completeness auto
termination
  by (relation "measure (\<lambda>(old, s). length s)") (auto simp: neq_Nil_conv)

definition int_keys :: "string list" where
  "int_keys = [''messages_per_page'', ''auto_refresh_interval'', ''dashboard_refresh_rate'']"

text \<open>
  The body of the loop over the fetched rows, for the key already stripped: decode the
  value, turn the strings \<open>true\<close>/\<open>True\<close>/\<open>false\<close>/\<open>False\<close> into booleans, and convert
  with \<open>int\<close> for the three integer keys (a \<open>ValueError\<close> or \<open>TypeError\<close> of \<open>int\<close> is
  swallowed and the value kept).
\<close>

definition decode_value :: "string \<Rightarrow> string \<Rightarrow> error + pyval" where
  "decode_value key raw =
     (case json_loads raw of
        JOther \<Rightarrow> Inl (OutsideModel raw)
      | r \<Rightarrow>
         (let v0 = (case r of JValue x \<Rightarrow> x | _ \<Rightarrow> PStr raw);
              v1 = (if py_in v0 [PStr ''true'', PStr ''True''] then PBool True
                    else if py_in v0 [PStr ''false'', PStr ''False''] then PBool False
                    else v0)
          in if key \<in> set int_keys
             then (case v1 of
                     PNone \<Rightarrow> Inr PNone
                   | PBool b \<Rightarrow> Inr (PInt (if b then 1 else 0))
                   | PInt n \<Rightarrow> Inr (PInt n)
                   | PStr t \<Rightarrow>
                       (case py_int_str t of
                          IValue n \<Rightarrow> Inr (PInt n)
                        | IError \<Rightarrow> Inr (PStr t)
                        | IOther \<Rightarrow> Inl (OutsideModel raw)))
             else Inr v1))"

section \<open>Reading preferences\<close>

fun load_rows :: "row list \<Rightarrow> snapshot \<Rightarrow> error + snapshot" where
  "load_rows [] preferences = Inr preferences"
| "load_rows ((k, raw) # rows) preferences =
     (let key = remove_all ''pref_'' k
      in case decode_value key raw of
           Inl e \<Rightarrow> Inl e
         | Inr v \<Rightarrow> load_rows rows (AList.update key v preferences))"

text \<open>
  \<open>timedelta.seconds\<close> of a difference of clock readings in microseconds: the seconds
  within the day, the days being a field of their own.
\<close>

definition td_seconds :: "int \<Rightarrow> int" where
  "td_seconds d = (d mod (86400 * 1000000)) div 1000000"

text \<open>The reload: the default map, overwritten by the selected rows in their order.\<close>

definition load_preferences :: "row list \<Rightarrow> error + snapshot" where
  "load_preferences rows = load_rows (select_prefs rows) DEFAULT_PREFERENCES"

text \<open>
  The cache check at the clock reading \<open>now\<close>: a non-empty cached snapshot and a
  timestamp, and \<open>(now - timestamp).seconds\<close> below the timeout.
\<close>

definition cached :: "state \<Rightarrow> int \<Rightarrow> snapshot option" where
  "cached s now =
     (case (preferences_cache s, cache_timestamp s) of
        (Some c, Some ts) \<Rightarrow>
          if c \<noteq> [] \<and> td_seconds (now - ts) < cache_timeout s then Some c else None
      | _ \<Rightarrow> None)"

text \<open>
  \<open>get_all_preferences\<close>; an operation reads the clock at the one instant \<open>now\<close>. An
  exception while the rows are decoded leaves the cache as it was.
\<close>

definition get_all_preferences :: "state \<Rightarrow> int \<Rightarrow> (error + snapshot) \<times> state" where
  "get_all_preferences s now =
     (case cached s now of
        Some c \<Rightarrow> (Inr c, s)
      | None \<Rightarrow>
          (case load_preferences (db s) of
             Inl e \<Rightarrow> (Inl e, s)
           | Inr preferences \<Rightarrow>
               (Inr preferences,
                s\<lparr>preferences_cache := Some preferences, cache_timestamp := Some now\<rparr>)))"

text \<open>\<open>d.get(key, default)\<close> with \<open>None\<close> for a missing default.\<close>

definition get_preference :: "state \<Rightarrow> int \<Rightarrow> string \<Rightarrow> (error + pyval) \<times> state" where
  "get_preference s now key =
     (case get_all_preferences s now of
        (Inl e, s') \<Rightarrow> (Inl e, s')
      | (Inr preferences, s') \<Rightarrow>
          (Inr (case map_of preferences key of
                  Some v \<Rightarrow> v
                | None \<Rightarrow> (case map_of DEFAULT_PREFERENCES key of Some d \<Rightarrow> d | None \<Rightarrow> PNone)),
           s'))"

definition get_timezone :: "state \<Rightarrow> int \<Rightarrow> (error + pyval) \<times> state" where
  "get_timezone s now = get_preference s now ''timezone''"

definition get_date_format :: "state \<Rightarrow> int \<Rightarrow> (error + pyval) \<times> state" where
  "get_date_format s now = get_preference s now ''date_format''"

definition get_time_format :: "state \<Rightarrow> int \<Rightarrow> (error + pyval) \<times> state" where
  "get_time_format s now = get_preference s now ''time_format''"

section \<open>Formatting dates\<close>

text \<open>
  A \<open>datetime\<close>; \<open>tzinfo\<close> is the identifier of the attached zone, \<open>None\<close> for a naive
  value.
\<close>

record datetime =
  year :: nat
  month :: nat
  day :: nat
  hour :: nat
  minute :: nat
  second :: nat
  microsecond :: nat
  tzinfo :: "string option"

definition pad2 :: "nat \<Rightarrow> string" where
  "pad2 n = (if n < 10 then CHR ''0'' # digits_of n else digits_of n)"

definition pad4 :: "nat \<Rightarrow> string" where
  "pad4 n = replicate (4 - length (digits_of n)) (CHR ''0'') @ digits_of n"

definition hour12 :: "nat \<Rightarrow> nat" where
  "hour12 h = (if h mod 12 = 0 then 12 else h mod 12)"

text \<open>
  The directives of \<open>strftime\<close> that the service's patterns use, in the C locale; any
  other directive is copied as it stands.
\<close>

definition directive :: "datetime \<Rightarrow> char \<Rightarrow> string" where
  "directive dt c =
     (if c = CHR ''Y'' then pad4 (year dt)
      else if c = CHR ''m'' then pad2 (month dt)
      else if c = CHR ''d'' then pad2 (day dt)
      else if c = CHR ''H'' then pad2 (hour dt)
      else if c = CHR ''I'' then pad2 (hour12 (hour dt))
      else if c = CHR ''M'' then pad2 (minute dt)
      else if c = CHR ''p'' then (if hour dt < 12 then ''AM'' else ''PM'')
      else if c = CHR ''%'' then ''%''
      else [CHR ''%'', c])"

fun strftime :: "datetime \<Rightarrow> string \<Rightarrow> string" where
  "strftime dt [] = []"
| "strftime dt [c] = [c]"
| "strftime dt (c # d # cs) =
     (if c = CHR ''%'' then directive dt d @ strftime dt cs else c # strftime dt (d # cs))"

definition format_map :: "(string \<times> string) list" where
  "format_map =
    [(''YYYY-MM-DD'', ''%Y-%m-%d''),
     (''DD/MM/YYYY'', ''%d/%m/%Y''),
     (''MM/DD/YYYY'', ''%m/%d/%Y''),
     (''DD.MM.YYYY'', ''%d.%m.%Y''),
     (date_format_ja, ''%Y'' @ nen @ ''%m'' @ gatsu @ ''%d'' @ nichi)]"

definition format_date :: "state \<Rightarrow> int \<Rightarrow> datetime \<Rightarrow> bool \<Rightarrow> (error + string) \<times> state" where
  "format_date s now dt include_time =
     (case get_date_format s now of
        (Inl e, s1) \<Rightarrow> (Inl e, s1)
      | (Inr date_format, s1) \<Rightarrow>
          (case get_time_format s1 now of
             (Inl e, s2) \<Rightarrow> (Inl e, s2)
           | (Inr time_format, s2) \<Rightarrow>
               (let date_fmt = (case date_format of
                                  PStr f \<Rightarrow> (case map_of format_map f of
                                               Some p \<Rightarrow> p
                                             | None \<Rightarrow> ''%Y-%m-%d'')
                                | _ \<Rightarrow> ''%Y-%m-%d'');
                    full_format =
                      (if include_time
                       then (let time_fmt = (if py_eq time_format (PStr ''12h'')
                                             then ''%I:%M %p'' else ''%H:%M'')
                             in date_fmt @ '' '' @ time_fmt)
                       else date_fmt)
                in (Inr (strftime dt full_format), s2))))"

section \<open>Converting between timezones\<close>

text \<open>
  The timezone database (\<open>pytz\<close>) is not part of the repository: which identifiers it
  knows, and how it attaches a zone to a naive datetime and moves an aware one to
  another zone, are parameters.
\<close>

record tzdb =
  tz_known :: "string \<Rightarrow> bool"
  localize :: "string \<Rightarrow> datetime \<Rightarrow> datetime"
  astimezone :: "string \<Rightarrow> datetime \<Rightarrow> datetime"

text \<open>
  \<open>pytz.timezone(zone)\<close>: an unknown identifier, and \<open>None\<close>, raise
  \<open>UnknownTimeZoneError\<close>; a value that is no string has no method \<open>upper\<close>.
\<close>

definition pytz_timezone :: "tzdb \<Rightarrow> pyval \<Rightarrow> error + string" where
  "pytz_timezone tz zone =
     (case zone of
        PNone \<Rightarrow> Inl (UnknownTimeZoneError PNone)
      | PStr name \<Rightarrow> if tz_known tz name then Inr name else Inl (UnknownTimeZoneError (PStr name))
      | _ \<Rightarrow> Inl AttributeError)"

definition convert_to_user_timezone ::
  "tzdb \<Rightarrow> state \<Rightarrow> int \<Rightarrow> datetime \<Rightarrow> string \<Rightarrow> (error + datetime) \<times> state" where
  "convert_to_user_timezone tz s now dt from_tz =
     (case get_timezone s now of
        (Inl e, s') \<Rightarrow> (Inl e, s')
      | (Inr user_tz_name, s') \<Rightarrow>
          (case (if tzinfo dt = None
                 then (case pytz_timezone tz (PStr from_tz) of
                         Inl e \<Rightarrow> Inl e
                       | Inr from_timezone \<Rightarrow> Inr (localize tz from_timezone dt))
                 else Inr dt) of
             Inl e \<Rightarrow> (Inl e, s')
           | Inr dt' \<Rightarrow>
               (case pytz_timezone tz user_tz_name of
                  Inl e \<Rightarrow> (Inl e, s')
                | Inr user_tz \<Rightarrow> (Inr (astimezone tz user_tz dt'), s'))))"

section \<open>States and stores the theorems speak about\<close>

text \<open>
  The cache is coherent when it is empty or holds what a reload would give: so it is in
  every state that the operations of one service reach while nothing else writes to the
  store.
\<close>

definition coherent :: "state \<Rightarrow> bool" where
  "coherent s =
     (case preferences_cache s of None \<Rightarrow> True | Some c \<Rightarrow> load_preferences (db s) = Inr c)"



text \<open>The rows after a batch of accepted entries, written one after the other.\<close>

definition persist :: "row list \<Rightarrow> (string \<times> pyval) list \<Rightarrow> row list" where
  "persist rows entries =
     foldl (\<lambda>rs e. insert_or_replace (''pref_'' @ fst e) (value_str (snd e)) rs) rows entries"





section \<open>Validation on the write path\<close>




section \<open>Outcomes of a write\<close>

lemma set_preference_accept:
  "fst (set_preference s k v) = Inr b \<Longrightarrow>
     set_preference s k v =
       (Inr True, s\<lparr>db := insert_or_replace (''pref_'' @ k) (value_str v) (db s),
                    preferences_cache := None\<rparr>)"
  by (simp add: set_preference_def split: if_splits)

lemma set_preference_reject:
  "fst (set_preference s k v) = Inl e \<Longrightarrow> set_preference s k v = (Inl e, s)"
  by (simp add: set_preference_def split: if_splits)

text \<open>Whether a write is accepted depends on the state through the timezone catalog only.\<close>

lemma set_preference_outcome_indep:
  "timezone_options s' = timezone_options s \<Longrightarrow>
     fst (set_preference s' k v) = fst (set_preference s k v)"
proof -
  assume "timezone_options s' = timezone_options s"
  then have "PREFERENCE_OPTIONS s' = PREFERENCE_OPTIONS s"
    by (simp add: PREFERENCE_OPTIONS_def)
  then show ?thesis
    by (simp add: set_preference_def)
qed

section \<open>Reading a key that has no row\<close>




text \<open>The operations keep the cache coherent, and a new service starts coherent.\<close>

lemma coherent_init: "coherent (init all_timezones rows)"
  by (simp add: coherent_def init_def)

lemma coherent_set_preference: "coherent s \<Longrightarrow> coherent (snd (set_preference s k v))"
proof (cases "fst (set_preference s k v)")
  case (Inl e)
  assume "coherent s"
  with set_preference_reject [OF Inl] show ?thesis by simp
next
  case (Inr b)
  from set_preference_accept [OF Inr] show ?thesis by (simp add: coherent_def)
qed

lemma coherent_reset_to_defaults: "coherent (snd (reset_to_defaults s))"
  by (simp add: coherent_def reset_to_defaults_def)

lemma coherent_get_all_preferences:
  "coherent s \<Longrightarrow> coherent (snd (get_all_preferences s now))"
  by (simp add: coherent_def get_all_preferences_def split: option.splits sum.splits)





section \<open>Resetting\<close>

lemma like_pref_prefix: "take 5 k = ''pref_'' \<Longrightarrow> like_pref k"
proof -
  assume a: "take 5 k = ''pref_''"
  then have "length (take 5 k) = 5" by simp
  then have l: "5 \<le> length k" by simp
  have "take 4 k = take 4 (take 5 k)" by simp
  also have "\<dots> = ''pref''" by (simp only: a) simp
  finally show ?thesis using l by (simp add: like_pref_def lower_char_def)
qed

lemma select_delete: "select_prefs (delete_prefs rows) = []"
  by (induction rows) (simp_all add: select_prefs_def delete_prefs_def)

text \<open>
  Claim C6. From any state, \<open>reset_to_defaults\<close> succeeds, keeps exactly the rows that
  the pattern does not select, so that no key with the prefix \<open>pref_\<close> is left, and
  empties the cache; \<open>get_all_preferences\<close> then returns exactly the default map.
\<close>

theorem reset_then_get_all:
  "fst (reset_to_defaults s) = Inr True
   \<and> db (snd (reset_to_defaults s)) = filter (\<lambda>r. \<not> like_pref (fst r)) (db s)
   \<and> filter (\<lambda>r. take 5 (fst r) = ''pref_'') (db (snd (reset_to_defaults s))) = []
   \<and> preferences_cache (snd (reset_to_defaults s)) = None
   \<and> fst (get_all_preferences (snd (reset_to_defaults s)) now) = Inr DEFAULT_PREFERENCES"
proof -
  have "filter (\<lambda>r. take 5 (fst r) = ''pref_'') (delete_prefs (db s)) = []"
    by (auto simp: delete_prefs_def filter_empty_conv dest: like_pref_prefix)
  then show ?thesis
    by (simp add: reset_to_defaults_def get_all_preferences_def cached_def
                  load_preferences_def select_delete delete_prefs_def [symmetric])
qed

text \<open>
  A reset within the cache window of a snapshot that held stored values: the rows of
  other components stay, and the next read gives the defaults.
\<close>

theorem reset_then_get_all_witness:
  "db (snd (reset_to_defaults
              (snd (get_all_preferences
                      (init [] [(''pref_language'', ''fr''), (''bot_name'', ''signal''),
                                (''pref_messages_per_page'', ''100'')]) 0))))
     = [(''bot_name'', ''signal'')]
   \<and> fst (get_all_preferences
            (snd (reset_to_defaults
                    (snd (get_all_preferences
                            (init [] [(''pref_language'', ''fr''), (''bot_name'', ''signal''),
                                      (''pref_messages_per_page'', ''100'')]) 0))))
            1000000) = Inr DEFAULT_PREFERENCES"
proof -
  let ?s = "snd (get_all_preferences
                   (init [] [(''pref_language'', ''fr''), (''bot_name'', ''signal''),
                             (''pref_messages_per_page'', ''100'')]) 0)"
  have "filter (\<lambda>r. \<not> like_pref (fst r)) (db ?s) = [(''bot_name'', ''signal'')]"
    by code_simp
  with reset_then_get_all [of ?s 1000000] show ?thesis by simp
qed

section \<open>Batches\<close>

lemma set_multiple_accepted:
  "list_all (\<lambda>e. fst (set_preference s (fst e) (snd e)) = Inr True) pre \<Longrightarrow>
     set_multiple_preferences s (pre @ rest)
       = set_multiple_preferences (snd (set_multiple_preferences s pre)) rest
     \<and> fst (set_multiple_preferences s pre) = Inr True
     \<and> timezone_options (snd (set_multiple_preferences s pre)) = timezone_options s
     \<and> db (snd (set_multiple_preferences s pre)) = persist (db s) pre"
proof (induction pre arbitrary: s)
  case Nil
  show ?case by (simp add: persist_def)
next
  case (Cons e pre)
  obtain k v where e: "e = (k, v)" by (cases e)
  let ?s1 = "s\<lparr>db := insert_or_replace (''pref_'' @ k) (value_str v) (db s),
               preferences_cache := None\<rparr>"
  from Cons.prems e have acc: "fst (set_preference s k v) = Inr True" by simp
  then have step: "set_preference s k v = (Inr True, ?s1)"
    by (rule set_preference_accept)
  have tz: "timezone_options ?s1 = timezone_options s" by simp
  from Cons.prems have "list_all (\<lambda>e. fst (set_preference s (fst e) (snd e)) = Inr True) pre"
    by simp
  then have "list_all (\<lambda>e. fst (set_preference ?s1 (fst e) (snd e)) = Inr True) pre"
    by (simp only: set_preference_outcome_indep [OF tz])
  from Cons.IH [OF this] show ?case
    by (simp add: e step persist_def)
qed

lemma persist_keeps:
  "r \<in> set rows \<Longrightarrow> fst r \<notin> (\<lambda>e. ''pref_'' @ fst e) ` set entries \<Longrightarrow>
     r \<in> set (persist rows entries)"
proof (induction entries arbitrary: rows)
  case Nil
  then show ?case by (simp add: persist_def)
next
  case (Cons e entries)
  from Cons.prems have "r \<in> set (insert_or_replace (''pref_'' @ fst e) (value_str (snd e)) rows)"
    by (auto simp: insert_or_replace_def)
  moreover from Cons.prems have "fst r \<notin> (\<lambda>e. ''pref_'' @ fst e) ` set entries" by auto
  ultimately have
    "r \<in> set (persist (insert_or_replace (''pref_'' @ fst e) (value_str (snd e)) rows) entries)"
    by (rule Cons.IH)
  then show ?case by (simp add: persist_def)
qed

lemma persist_member:
  "distinct (map fst entries) \<Longrightarrow> e \<in> set entries \<Longrightarrow>
     (''pref_'' @ fst e, value_str (snd e)) \<in> set (persist rows entries)"
proof (induction entries arbitrary: rows)
  case Nil
  then show ?case by simp
next
  case (Cons x entries)
  let ?rows = "insert_or_replace (''pref_'' @ fst x) (value_str (snd x)) rows"
  have unfold: "persist rows (x # entries) = persist ?rows entries"
    by (simp add: persist_def)
  show ?case
  proof (cases "e = x")
    case True
    have "(''pref_'' @ fst x, value_str (snd x)) \<in> set ?rows"
      by (simp add: insert_or_replace_def)
    moreover from Cons.prems(1)
    have "fst (''pref_'' @ fst x, value_str (snd x)) \<notin> (\<lambda>e. ''pref_'' @ fst e) ` set entries"
      by auto
    ultimately show ?thesis
      unfolding unfold True by (rule persist_keeps)
  next
    case False
    with Cons.prems have "distinct (map fst entries)" and "e \<in> set entries" by simp_all
    then show ?thesis unfolding unfold by (rule Cons.IH)
  qed
qed

text \<open>
  Claim C8. A batch is a mapping, so its keys are distinct. When every entry before
  \<open>(k, v)\<close> is one that \<open>set_preference\<close> accepts and \<open>(k, v)\<close> is one it refuses, the
  batch raises the error of \<open>(k, v)\<close> and stops there: the entries after it are not
  looked at, the state is the one the accepted entries have left, written in their
  order, and the row of each of them is in the store.
\<close>

theorem set_multiple_not_transactional:
  assumes "list_all (\<lambda>e. fst (set_preference s (fst e) (snd e)) = Inr True) pre"
    and "fst (set_preference s k v) = Inl err"
    and "distinct (map fst pre)"
  shows "set_multiple_preferences s (pre @ (k, v) # post)
           = (Inl err, snd (set_multiple_preferences s pre))
         \<and> db (snd (set_multiple_preferences s (pre @ (k, v) # post))) = persist (db s) pre
         \<and> list_all (\<lambda>e. (''pref_'' @ fst e, value_str (snd e))
                            \<in> set (db (snd (set_multiple_preferences s (pre @ (k, v) # post))))) pre"
proof -
  let ?s' = "snd (set_multiple_preferences s pre)"
  note acc = set_multiple_accepted [OF assms(1)]
  from acc have tz: "timezone_options ?s' = timezone_options s" by simp
  from assms(2) have "fst (set_preference ?s' k v) = Inl err"
    by (simp only: set_preference_outcome_indep [OF tz])
  then have "set_preference ?s' k v = (Inl err, ?s')"
    by (rule set_preference_reject)
  then have "set_multiple_preferences ?s' ((k, v) # post) = (Inl err, ?s')"
    by simp
  with acc [of "(k, v) # post"] have
    1: "set_multiple_preferences s (pre @ (k, v) # post) = (Inl err, ?s')"
    by simp
  from acc have 2: "db ?s' = persist (db s) pre" by simp
  have 3: "list_all (\<lambda>e. (''pref_'' @ fst e, value_str (snd e)) \<in> set (persist (db s) pre)) pre"
    unfolding list_all_iff using assms(3) by (blast intro: persist_member)
  from 1 2 3 show ?thesis by simp
qed

text \<open>
  Two valid entries, then \<open>6h\<close> for \<open>time_format\<close>, then a valid timezone: the error
  is that of \<open>time_format\<close>, the first two rows are stored and the timezone is not.
\<close>

theorem set_multiple_not_transactional_witness:
  "fst (set_multiple_preferences (init [] [])
          ([(''language'', PStr ''fr''), (''messages_per_page'', PInt 100)]
           @ (''time_format'', PStr ''6h'') # [(''timezone'', PStr ''UTC'')]))
     = Inl (ValueError ''Invalid value for time_format: 6h'')
   \<and> db (snd (set_multiple_preferences (init [] [])
          ([(''language'', PStr ''fr''), (''messages_per_page'', PInt 100)]
           @ (''time_format'', PStr ''6h'') # [(''timezone'', PStr ''UTC'')])))
     = [(''pref_language'', ''fr''), (''pref_messages_per_page'', ''100'')]"
proof -
  let ?s = "init [] []"
  let ?pre = "[(''language'', PStr ''fr''), (''messages_per_page'', PInt 100)]"
  let ?post = "[(''timezone'', PStr ''UTC'')]"
  have 1: "list_all (\<lambda>e. fst (set_preference ?s (fst e) (snd e)) = Inr True) ?pre"
    by code_simp
  have 2: "fst (set_preference ?s ''time_format'' (PStr ''6h''))
             = Inl (ValueError ''Invalid value for time_format: 6h'')"
    by code_simp
  have 3: "distinct (map fst ?pre)" by simp
  have 4: "persist (db ?s) ?pre = [(''pref_language'', ''fr''), (''pref_messages_per_page'', ''100'')]"
    by code_simp
  note t = set_multiple_not_transactional [OF 1 2 3, of ?post]
  have a: "set_multiple_preferences ?s (?pre @ (''time_format'', PStr ''6h'') # ?post)
             = (Inl (ValueError ''Invalid value for time_format: 6h''),
                snd (set_multiple_preferences ?s ?pre))"
    by (rule conjunct1 [OF t])
  have b: "db (snd (set_multiple_preferences ?s (?pre @ (''time_format'', PStr ''6h'') # ?post)))
             = persist (db ?s) ?pre"
    by (rule conjunct1 [OF conjunct2 [OF t]])
  show ?thesis
  proof (rule conjI)
    show "fst (set_multiple_preferences ?s (?pre @ (''time_format'', PStr ''6h'') # ?post))
            = Inl (ValueError ''Invalid value for time_format: 6h'')"
      by (simp only: a fst_conv)
    show "db (snd (set_multiple_preferences ?s (?pre @ (''time_format'', PStr ''6h'') # ?post)))
            = [(''pref_language'', ''fr''), (''pref_messages_per_page'', ''100'')]"
      by (simp only: b 4)
  qed
qed

section \<open>The timezone catalog\<close>

text \<open>No operation of the service writes the catalog.\<close>

lemma get_all_preferences_frame:
  "timezone_options (snd (get_all_preferences s now)) = timezone_options s"
  by (simp add: get_all_preferences_def split: option.splits sum.splits)

lemma get_preference_frame:
  "timezone_options (snd (get_preference s now k)) = timezone_options s"
proof (cases "get_all_preferences s now")
  case (Pair r s')
  with get_all_preferences_frame [of s now] show ?thesis
    by (cases r) (simp_all add: get_preference_def)
qed

lemma set_preference_frame:
  "timezone_options (snd (set_preference s k v)) = timezone_options s"
proof (cases "fst (set_preference s k v)")
  case (Inl e)
  from set_preference_reject [OF Inl] show ?thesis by simp
next
  case (Inr b)
  from set_preference_accept [OF Inr] show ?thesis by simp
qed

lemma set_multiple_preferences_frame:
  "timezone_options (snd (set_multiple_preferences s entries)) = timezone_options s"
proof (induction entries arbitrary: s)
  case Nil
  show ?case by simp
next
  case (Cons e entries)
  obtain k v where e: "e = (k, v)" by (cases e)
  obtain r s' where step: "set_preference s k v = (r, s')" by (cases "set_preference s k v")
  with set_preference_frame [of s k v] have tz: "timezone_options s' = timezone_options s"
    by simp
  show ?case
  proof (cases r)
    case (Inl err)
    with step tz e show ?thesis by simp
  next
    case (Inr b)
    with step tz e Cons.IH [of s'] show ?thesis by simp
  qed
qed

lemma format_date_frame:
  "timezone_options (snd (format_date s now dt inc)) = timezone_options s"
proof -
  obtain r1 s1 where a: "get_preference s now ''date_format'' = (r1, s1)"
    by (cases "get_preference s now ''date_format''")
  obtain r2 s2 where b: "get_preference s1 now ''time_format'' = (r2, s2)"
    by (cases "get_preference s1 now ''time_format''")
  from a get_preference_frame [of s now "''date_format''"]
  have 1: "timezone_options s1 = timezone_options s" by simp
  from b get_preference_frame [of s1 now "''time_format''"]
  have 2: "timezone_options s2 = timezone_options s1" by simp
  show ?thesis
    by (cases r1; cases r2)
       (simp_all add: format_date_def get_date_format_def get_time_format_def a b 1 2 Let_def)
qed

lemma convert_to_user_timezone_frame:
  "timezone_options (snd (convert_to_user_timezone tz s now dt from_tz)) = timezone_options s"
proof -
  obtain r1 s1 where a: "get_preference s now ''timezone'' = (r1, s1)"
    by (cases "get_preference s now ''timezone''")
  from a get_preference_frame [of s now "''timezone''"]
  have 1: "timezone_options s1 = timezone_options s" by simp
  show ?thesis
    by (cases r1)
       (simp_all add: convert_to_user_timezone_def get_timezone_def a 1 split: sum.splits)
qed

lemma distinct_common_zones: "distinct common_zones"
  by code_simp

text \<open>
  Claim C9. Strings are ordered by their bytes, the first difference deciding, which is
  the order of Python's \<open>sorted\<close> on these identifiers. The catalog that the constructor
  builds from the identifiers \<open>tzs\<close> of the timezone database starts with the 14 common
  zones, from \<open>UTC\<close> to \<open>Australia/Melbourne\<close>; the rest is the sorted list of the
  identifiers of \<open>tzs\<close> that are not common zones; when the database lists no identifier
  twice, the catalog has no duplicate; and every operation leaves the catalog as it was.
\<close>

theorem timezone_catalog:
  "length common_zones = 14
   \<and> hd common_zones = ''UTC'' \<and> last common_zones = ''Australia/Melbourne''
   \<and> take 14 (get_timezone_options tzs) = common_zones
   \<and> drop 14 (get_timezone_options tzs) = sort (filter (\<lambda>tz. tz \<notin> set common_zones) tzs)
   \<and> sorted (drop 14 (get_timezone_options tzs))
   \<and> set (drop 14 (get_timezone_options tzs)) = set tzs - set common_zones
   \<and> (distinct tzs \<longrightarrow> distinct (get_timezone_options tzs))
   \<and> timezone_options (init tzs rows) = get_timezone_options tzs
   \<and> timezone_options (snd (get_all_preferences s now)) = timezone_options s
   \<and> timezone_options (snd (get_preference s now k)) = timezone_options s
   \<and> timezone_options (snd (set_preference s k v)) = timezone_options s
   \<and> timezone_options (snd (set_multiple_preferences s entries)) = timezone_options s
   \<and> timezone_options (snd (reset_to_defaults s)) = timezone_options s
   \<and> timezone_options (snd (format_date s now dt inc)) = timezone_options s
   \<and> timezone_options (snd (convert_to_user_timezone tz s now dt from_tz)) = timezone_options s"
proof -
  have len: "length common_zones = 14" by (simp add: common_zones_def)
  have ends: "hd common_zones = ''UTC'' \<and> last common_zones = ''Australia/Melbourne''"
    by (simp add: common_zones_def)
  have split: "get_timezone_options tzs
                 = common_zones @ sort (filter (\<lambda>tz. tz \<notin> set common_zones) tzs)"
    by (simp add: get_timezone_options_def)
  have tk: "take 14 (get_timezone_options tzs) = common_zones"
    by (simp add: split len)
  have dr: "drop 14 (get_timezone_options tzs) = sort (filter (\<lambda>tz. tz \<notin> set common_zones) tzs)"
    by (simp add: split len)
  have so: "sorted (drop 14 (get_timezone_options tzs))"
    by (simp only: dr sorted_sort)
  have se: "set (drop 14 (get_timezone_options tzs)) = set tzs - set common_zones"
    by (auto simp only: dr set_sort set_filter)
  have di: "distinct tzs \<longrightarrow> distinct (get_timezone_options tzs)"
  proof
    assume "distinct tzs"
    then have "distinct (sort (filter (\<lambda>tz. tz \<notin> set common_zones) tzs))"
      by (simp only: distinct_sort distinct_filter)
    moreover have "set common_zones \<inter> set (sort (filter (\<lambda>tz. tz \<notin> set common_zones) tzs)) = {}"
      by (auto simp only: set_sort set_filter)
    ultimately show "distinct (get_timezone_options tzs)"
      by (simp only: split distinct_append distinct_common_zones simp_thms)
  qed
  have ini: "timezone_options (init tzs rows) = get_timezone_options tzs"
    by (simp add: init_def)
  have re: "timezone_options (snd (reset_to_defaults s)) = timezone_options s"
    by (simp add: reset_to_defaults_def)
  from len ends tk dr so se di ini re show ?thesis
    by (simp only: get_all_preferences_frame get_preference_frame set_preference_frame
          set_multiple_preferences_frame format_date_frame convert_to_user_timezone_frame
          simp_thms)
qed

text \<open>A database of five identifiers, two of them common zones.\<close>

theorem timezone_catalog_witness:
  "get_timezone_options [''Zulu'', ''UTC'', ''Africa/Abidjan'', ''GMT'', ''Asia/Tokyo'']
     = common_zones @ [''Africa/Abidjan'', ''GMT'', ''Zulu'']
   \<and> distinct (get_timezone_options [''Zulu'', ''UTC'', ''Africa/Abidjan'', ''GMT'', ''Asia/Tokyo''])"
proof -
  let ?tzs = "[''Zulu'', ''UTC'', ''Africa/Abidjan'', ''GMT'', ''Asia/Tokyo'']"
  note t = timezone_catalog [of ?tzs "[]" "init [] []" 0 "''x''" PNone "[]"
             "\<lparr>year = 2024, month = 1, day = 1, hour = 0, minute = 0, second = 0,
               microsecond = 0, tzinfo = None\<rparr>" False
             "\<lparr>tz_known = (\<lambda>z. False), localize = (\<lambda>z d. d), astimezone = (\<lambda>z d. d)\<rparr>"
             "''UTC''"]
  have d: "distinct ?tzs" by code_simp
  have e: "get_timezone_options ?tzs = common_zones @ [''Africa/Abidjan'', ''GMT'', ''Zulu'']"
    by code_simp
  from t d have "distinct (get_timezone_options ?tzs)" by blast
  with e show ?thesis by (rule conjI)
qed

section \<open>The cache window\<close>

lemma int_div_less_iff: "0 < c \<Longrightarrow> ((d::int) div c < n) = (d < n * c)"
proof -
  assume c: "0 < c"
  then have "c \<noteq> 0" by simp
  then have "(d + (- n) * c) div c = (- n) + d div c"
    by (rule div_mult_self1 [of c d "- n"])
  then have "((d - n * c) div c < 0) = (d div c < n)" by simp
  with pos_imp_zdiv_neg_iff [OF c, of "d - n * c"] show ?thesis by simp
qed

text \<open>
  For an age from zero up to a day, the test on \<open>timedelta.seconds\<close> is the test of the
  age against 60 seconds.
\<close>

lemma td_seconds_within_a_day:
  assumes "0 \<le> d" and "d < 86400 * 1000000"
  shows "(td_seconds d < 60) = (d < 60 * 1000000)"
proof -
  from assms have "d mod (86400 * 1000000) = d" by simp
  then have "td_seconds d = d div 1000000" by (simp add: td_seconds_def)
  then show ?thesis by (simp add: int_div_less_iff)
qed

text \<open>An accepted write empties the cache, so the next read reloads.\<close>

lemma cached_after_set_preference:
  "fst (set_preference s k v) = Inr b \<Longrightarrow> cached (snd (set_preference s k v)) now = None"
  by (drule set_preference_accept) (simp add: cached_def)

text \<open>
  Claim C3 says that a cached snapshot of an age of 60 seconds or more is never
  returned. The service compares \<open>timedelta.seconds\<close>, which leaves the days of the age
  out: a snapshot cached at time 0 is returned unchanged one day and five seconds later,
  with its old timestamp, although the store has since received a row for \<open>language\<close>
  and a reload gives \<open>fr\<close>; at an age of exactly 60 seconds the same state reloads.
\<close>

theorem stale_cache_after_a_day:
  "(86405000000::int) - 0 \<ge> 60 * 1000000
   \<and> fst (get_all_preferences
            \<lparr>db = [(''pref_language'', ''fr'')], preferences_cache = Some DEFAULT_PREFERENCES,
             cache_timestamp = Some 0, cache_timeout = 60, timezone_options = common_zones\<rparr>
            86405000000) = Inr DEFAULT_PREFERENCES
   \<and> cache_timestamp (snd (get_all_preferences
            \<lparr>db = [(''pref_language'', ''fr'')], preferences_cache = Some DEFAULT_PREFERENCES,
             cache_timestamp = Some 0, cache_timeout = 60, timezone_options = common_zones\<rparr>
            86405000000)) = Some 0
   \<and> load_preferences [(''pref_language'', ''fr'')]
       = Inr (AList.update ''language'' (PStr ''fr'') DEFAULT_PREFERENCES)
   \<and> fst (get_all_preferences
            \<lparr>db = [(''pref_language'', ''fr'')], preferences_cache = Some DEFAULT_PREFERENCES,
             cache_timestamp = Some 0, cache_timeout = 60, timezone_options = common_zones\<rparr>
            60000000) = Inr (AList.update ''language'' (PStr ''fr'') DEFAULT_PREFERENCES)"
  by (simp add: get_all_preferences_def cached_def td_seconds_def load_preferences_def select_prefs_def like_pref_def lower_char_def decode_value_def json_loads_def json_ws_def json_int_def is_digit_def py_in_def int_keys_def DEFAULT_PREFERENCES_def)

section \<open>Formatted dates\<close>







section \<open>Writing and reading back\<close>

















section \<open>Conversion to the configured timezone\<close>

text \<open>
  Claim C4, as the code has it. With \<open>name\<close> the configured timezone and, for a naive
  datetime, a known \<open>from_tz\<close>: \<open>convert_to_user_timezone\<close> returns the converted
  datetime when the timezone database knows \<open>name\<close>, and raises the database's
  \<open>UnknownTimeZoneError\<close> when it does not. There is no fallback to UTC.
\<close>

theorem convert_to_user_timezone_outcome:
  assumes "get_timezone s now = (Inr (PStr name), s')"
    and "tzinfo dt = None \<longrightarrow> tz_known tz from_tz"
  shows "convert_to_user_timezone tz s now dt from_tz =
           (if tz_known tz name
            then Inr (astimezone tz name (if tzinfo dt = None then localize tz from_tz dt else dt))
            else Inl (UnknownTimeZoneError (PStr name)),
            s')"
  using assms by (simp add: convert_to_user_timezone_def pytz_timezone_def)

text \<open>
  A database that knows the common zones and whose conversions only attach the zone: a
  naive datetime is moved to the configured \<open>Asia/Tokyo\<close>.
\<close>

theorem convert_to_user_timezone_outcome_witness:
  "fst (convert_to_user_timezone
          \<lparr>tz_known = (\<lambda>z. z \<in> set common_zones),
           localize = (\<lambda>z d. d\<lparr>tzinfo := Some z\<rparr>),
           astimezone = (\<lambda>z d. d\<lparr>tzinfo := Some z\<rparr>)\<rparr>
          (init [] [(''pref_timezone'', ''Asia/Tokyo'')]) 0
          \<lparr>year = 2024, month = 7, day = 1, hour = 12, minute = 0, second = 0, microsecond = 0,
           tzinfo = None\<rparr> ''UTC'')
     = Inr \<lparr>year = 2024, month = 7, day = 1, hour = 12, minute = 0, second = 0, microsecond = 0,
            tzinfo = Some ''Asia/Tokyo''\<rparr>"
proof -
  let ?tz = "\<lparr>tz_known = (\<lambda>z. z \<in> set common_zones),
              localize = (\<lambda>z d. d\<lparr>tzinfo := Some z\<rparr>),
              astimezone = (\<lambda>z d. d\<lparr>tzinfo := Some z\<rparr>)\<rparr>"
  let ?s = "init [] [(''pref_timezone'', ''Asia/Tokyo'')]"
  let ?dt = "\<lparr>year = 2024, month = 7, day = 1, hour = 12, minute = 0, second = 0,
              microsecond = 0, tzinfo = None\<rparr>"
  have f: "fst (get_timezone ?s 0) = Inr (PStr ''Asia/Tokyo'')" by code_simp
  then have g: "get_timezone ?s 0 = (Inr (PStr ''Asia/Tokyo''), snd (get_timezone ?s 0))"
    by (simp add: prod_eq_iff)
  have k: "tzinfo ?dt = None \<longrightarrow> tz_known ?tz ''UTC''"
    by (simp add: common_zones_def)
  have k2: "tz_known ?tz ''Asia/Tokyo''" by (simp add: common_zones_def)
  from convert_to_user_timezone_outcome [OF g k] k2 show ?thesis by simp
qed

text \<open>
  With the row \<open>pref_timezone\<close> holding \<open>Mars/Phobos\<close>, which the database does not
  know, the conversion of an aware datetime raises.
\<close>

theorem convert_to_user_timezone_raises_counterexample:
  "\<not> tz_known \<lparr>tz_known = (\<lambda>z. z \<in> set common_zones),
               localize = (\<lambda>z d. d\<lparr>tzinfo := Some z\<rparr>),
               astimezone = (\<lambda>z d. d\<lparr>tzinfo := Some z\<rparr>)\<rparr> ''Mars/Phobos''
   \<and> fst (get_timezone (init [] [(''pref_timezone'', ''Mars/Phobos'')]) 0)
       = Inr (PStr ''Mars/Phobos'')
   \<and> fst (convert_to_user_timezone
          \<lparr>tz_known = (\<lambda>z. z \<in> set common_zones),
           localize = (\<lambda>z d. d\<lparr>tzinfo := Some z\<rparr>),
           astimezone = (\<lambda>z d. d\<lparr>tzinfo := Some z\<rparr>)\<rparr>
          (init [] [(''pref_timezone'', ''Mars/Phobos'')]) 0
          \<lparr>year = 2024, month = 7, day = 1, hour = 12, minute = 0, second = 0, microsecond = 0,
           tzinfo = Some ''UTC''\<rparr> ''UTC'')
     = Inl (UnknownTimeZoneError (PStr ''Mars/Phobos''))"
  by code_simp

end
